theory Spec2Isabelle
  imports Complex_Main
begin

section \<open>Python values\<close>

text \<open>
  A Python \<^verbatim>\<open>str\<close> of the detector is modelled by an Isabelle \<open>string\<close>. The detector
  never looks inside the Greek text it is given: it hands the text to its collaborators,
  copies it into the result and compares references for equality, so the character type
  does not matter there. The parser of the LLM reply does look at characters; it is modelled
  on ASCII replies (see below).

  A Python \<^verbatim>\<open>float\<close> is modelled by the real number it denotes. Comparing two floats
  compares these numbers, so the float literals of the classifier are the exact values of
  the IEEE-754 doubles they stand for, not the decimal fractions they are written as.

  An exception is a value: a function that may raise returns \<open>exn + 'a\<close>, with \<open>Inl\<close> for
  the exception. Every \<^verbatim>\<open>except Exception\<close> of the source catches every \<open>exn\<close>.
\<close>

datatype exn = ValueError string | AttributeError string | Exception string

type_synonym 'a raising = "exn + 'a"

definition float_0_95 :: real where
  \<comment> \<open>the double written \<^verbatim>\<open>0.95\<close>\<close>
  "float_0_95 = 4278419646001971 / 4503599627370496"

definition float_0_85 :: real where
  \<comment> \<open>the double written \<^verbatim>\<open>0.85\<close>\<close>
  "float_0_85 = 7656119366529843 / 9007199254740992"

definition float_0_75 :: real where
  \<comment> \<open>the double written \<^verbatim>\<open>0.75\<close>, which is exact\<close>
  "float_0_75 = 3 / 4"

definition float_0_65 :: real where
  \<comment> \<open>the double written \<^verbatim>\<open>0.65\<close>\<close>
  "float_0_65 = 5854679515581645 / 9007199254740992"

definition float_0_7 :: real where
  \<comment> \<open>the double written \<^verbatim>\<open>0.7\<close>\<close>
  "float_0_7 = 3152519739159347 / 4503599627370496"

definition float_0_1 :: real where
  \<comment> \<open>the double written \<^verbatim>\<open>0.1\<close>\<close>
  "float_0_1 = 3602879701896397 / 36028797018963968"

subsection \<open>Formatting a float with \<^verbatim>\<open>:.3f\<close>\<close>

text \<open>
  Python prints the exact value of the double, rounded correctly to three decimals, a tie
  going to the even neighbour. Negative zero, infinities and NaN are not real numbers and
  are outside the model.
\<close>

definition digit_char :: "nat \<Rightarrow> char" where
  "digit_char n = char_of (48 + n)"

fun decimal :: "nat \<Rightarrow> string" where
  "decimal n = (if n < 10 then [digit_char n] else decimal (n div 10) @ [digit_char (n mod 10)])"

declare decimal.simps [simp del]

definition round_half_even :: "real \<Rightarrow> int" where
  "round_half_even x =
     (let f = \<lfloor>x\<rfloor>; d = x - of_int f
      in if d < 1 / 2 then f else if 1 / 2 < d then f + 1 else if even f then f else f + 1)"

definition format_3f :: "real \<Rightarrow> string" where
  "format_3f x =
     (let n = nat (round_half_even (\<bar>x\<bar> * 1000)); frac = decimal (n mod 1000)
      in (if x < 0 then ''-'' else '''') @ decimal (n div 1000) @ ''.''
         @ replicate (3 - length frac) (CHR ''0'') @ frac)"

section \<open>The data model of \<^verbatim>\<open>src/search/detector.py\<close>\<close>

text \<open>
  A candidate is the dictionary that \<^verbatim>\<open>QdrantManager.search\<close> builds for one hit. The keys
  read with \<^verbatim>\<open>c[...]\<close> are fields; the keys read with \<^verbatim>\<open>c.get(...)\<close> may be missing
  and are options.
\<close>

record Candidate =
  c_reference :: string
  c_book :: string
  c_chapter :: int
  c_verse :: int
  c_text :: string
  c_score :: real
  c_source :: "string option"
  c_greek_original :: "string option"

record DetectionSource =
  reference :: string
  book :: string
  chapter_num :: int
  verse :: int
  greek_text :: string
  greek_original :: "string option"
  similarity_score :: real
  source_edition :: string

record DetectionResult =
  input_text :: string
  is_quotation :: bool
  confidence :: int
  match_type :: string
  sources :: "DetectionSource list"
  best_match :: "DetectionSource option"
  explanation :: string
  processing_time_ms :: int

section \<open>The data model of \<^verbatim>\<open>src/llm/claude_client.py\<close>\<close>

datatype MatchType =
  EXACT | CLOSE_PARAPHRASE | LOOSE_PARAPHRASE | ALLUSION | NON_BIBLICAL | UNCERTAIN

fun MatchType_value :: "MatchType \<Rightarrow> string" where
  "MatchType_value EXACT = ''exact''"
| "MatchType_value CLOSE_PARAPHRASE = ''close_paraphrase''"
| "MatchType_value LOOSE_PARAPHRASE = ''loose_paraphrase''"
| "MatchType_value ALLUSION = ''allusion''"
| "MatchType_value NON_BIBLICAL = ''non_biblical''"
| "MatchType_value UNCERTAIN = ''uncertain''"

text \<open>\<^verbatim>\<open>MatchType(s)\<close>: the member whose value is \<open>s\<close>, or ValueError.\<close>

definition MatchType_of :: "string \<Rightarrow> MatchType raising" where
  "MatchType_of s =
     (if s = ''exact'' then Inr EXACT
      else if s = ''close_paraphrase'' then Inr CLOSE_PARAPHRASE
      else if s = ''loose_paraphrase'' then Inr LOOSE_PARAPHRASE
      else if s = ''allusion'' then Inr ALLUSION
      else if s = ''non_biblical'' then Inr NON_BIBLICAL
      else if s = ''uncertain'' then Inr UNCERTAIN
      else Inl (ValueError s))"

record VerificationResult =
  v_is_quotation :: bool
  v_match_type :: MatchType
  v_confidence :: int
  v_explanation :: string
  best_match_reference :: "string option"
  best_match_text :: "string option"

record ClaudeClient =
  api_key :: string
  model :: string
  max_tokens :: int
  temperature :: real

record QdrantManager =
  collection_name :: string
  embedding_model_name :: string
  qdrant_path :: string

section \<open>The world outside the detector\<close>

text \<open>
  What the detector cannot compute by itself is a field of the world: the outcome of
  building a \<^verbatim>\<open>QdrantManager\<close> (loading the embedding model, opening the store), the
  outcome of a search, the value of the environment variable, and the reply of the
  Anthropic API to the prompt built from the input text and the first five candidates
  (\<^verbatim>\<open>response.content[0].text\<close>, or the exception of the call). A fixed world is a fixed
  state of the vector index and of the other collaborators.
\<close>

record world =
  QdrantManager_new :: "QdrantManager raising"
  QdrantManager_search :: "QdrantManager \<Rightarrow> string \<Rightarrow> int \<Rightarrow> real \<Rightarrow> Candidate list raising"
  ANTHROPIC_API_KEY :: "string option"
  messages_create :: "ClaudeClient \<Rightarrow> string \<Rightarrow> Candidate list \<Rightarrow> string raising"

section \<open>The string methods used on the reply of the API\<close>

text \<open>
  The reply of the API is parsed with \<^verbatim>\<open>strip\<close>, \<^verbatim>\<open>split\<close>, \<^verbatim>\<open>upper\<close>, \<^verbatim>\<open>lower\<close> and
  \<^verbatim>\<open>int\<close>. They are modelled as Python defines them on ASCII text: white space is Python's
  (\<^verbatim>\<open>str.isspace\<close> below U+0100), and the case mappings move the letters A to Z only.
  \<^verbatim>\<open>int\<close> accepts an optional sign and decimal digits, with single underscores between
  digits; the limit that Python puts on the number of digits is not modelled.
\<close>

definition is_space :: "char \<Rightarrow> bool" where
  "is_space c =
     (let n = (of_char c :: nat)
      in (9 \<le> n \<and> n \<le> 13) \<or> (28 \<le> n \<and> n \<le> 32) \<or> n = 133 \<or> n = 160)"

definition str_strip :: "string \<Rightarrow> string" where
  "str_strip s = rev (dropWhile is_space (rev (dropWhile is_space s)))"

definition str_upper :: "string \<Rightarrow> string" where
  "str_upper s =
     map (\<lambda>c. let n = (of_char c :: nat) in if 97 \<le> n \<and> n \<le> 122 then char_of (n - 32) else c) s"

definition str_lower :: "string \<Rightarrow> string" where
  "str_lower s =
     map (\<lambda>c. let n = (of_char c :: nat) in if 65 \<le> n \<and> n \<le> 90 then char_of (n + 32) else c) s"

fun str_split :: "char \<Rightarrow> string \<Rightarrow> string list" where
  "str_split sep [] = [] # []"
| "str_split sep (c # cs) =
     (if c = sep then [] # str_split sep cs
      else (case str_split sep cs of [] \<Rightarrow> [c] # [] | w # ws \<Rightarrow> (c # w) # ws))"

definition is_digit :: "char \<Rightarrow> bool" where
  "is_digit c = (48 \<le> (of_char c :: nat) \<and> (of_char c :: nat) \<le> 57)"

fun int_digits :: "string \<Rightarrow> bool \<Rightarrow> nat \<Rightarrow> nat option" where
  "int_digits [] after_digit acc = (if after_digit then Some acc else None)"
| "int_digits (c # cs) after_digit acc =
     (if is_digit c then int_digits cs True (acc * 10 + (of_char c - 48))
      else if c = CHR ''_'' \<and> after_digit then int_digits cs False acc
      else None)"

definition py_int :: "string \<Rightarrow> int raising" where
  "py_int s =
     (let t = str_strip s;
          (neg, ds) = (case t of [] \<Rightarrow> (False, [])
                       | c # r \<Rightarrow> if c = CHR ''-'' then (True, r)
                                 else if c = CHR ''+'' then (False, r) else (False, t))
      in case int_digits ds False 0 of
           None \<Rightarrow> Inl (ValueError s)
         | Some n \<Rightarrow> Inr (if neg then - int n else int n))"

definition dict_get :: "(string \<rightharpoonup> string) \<Rightarrow> string \<Rightarrow> string \<Rightarrow> string" where
  "dict_get d k dflt = (case d k of None \<Rightarrow> dflt | Some v \<Rightarrow> v)"

fun exn_str :: "exn \<Rightarrow> string" where
  "exn_str (ValueError m) = m"
| "exn_str (AttributeError m) = m"
| "exn_str (Exception m) = m"

section \<open>\<^verbatim>\<open>ClaudeClient\<close>: the constructor, the parser and the verification\<close>

definition ClaudeClient_init :: "world \<Rightarrow> ClaudeClient raising" where
  "ClaudeClient_init w =
     (case ANTHROPIC_API_KEY w of
        None \<Rightarrow> Inl (ValueError ''ANTHROPIC_API_KEY not set in environment'')
      | Some k \<Rightarrow>
          if k = [] \<or> k = ''your_key_here''
          then Inl (ValueError ''ANTHROPIC_API_KEY not set in environment'')
          else Inr \<lparr>api_key = k, model = ''claude-sonnet-4-20250514'', max_tokens = 1024,
                    temperature = float_0_1\<rparr>)"

text \<open>The loop over the lines of the reply: a later line with the same key wins.\<close>

fun parse_lines :: "string list \<Rightarrow> (string \<rightharpoonup> string) \<Rightarrow> (string \<rightharpoonup> string)" where
  "parse_lines [] result_dict = result_dict"
| "parse_lines (line # lines) result_dict =
     (if CHR '':'' \<in> set line
      then (let key = takeWhile (\<lambda>c. c \<noteq> CHR '':'') line;
                val = tl (dropWhile (\<lambda>c. c \<noteq> CHR '':'') line)
            in parse_lines lines (result_dict(str_upper (str_strip key) \<mapsto> str_strip val)))
      else parse_lines lines result_dict)"

definition parse_verification_response :: "string \<Rightarrow> Candidate list \<Rightarrow> VerificationResult" where
  "parse_verification_response response_text candidates =
     (let lines = str_split (CHR 0x0A) (str_strip response_text);
          result_dict = parse_lines lines Map.empty;
          is_q = (str_lower (dict_get result_dict ''IS_QUOTATION'' ''no'') = ''yes'');
          match_type_str = str_lower (dict_get result_dict ''MATCH_TYPE'' ''non_biblical'');
          mt = (case MatchType_of match_type_str of Inl e \<Rightarrow> UNCERTAIN | Inr m \<Rightarrow> m);
          conf = (case py_int (dict_get result_dict ''CONFIDENCE'' ''50'') of
                    Inl e \<Rightarrow> 50
                  | Inr n \<Rightarrow> max 0 (min 100 n));
          expl = dict_get result_dict ''EXPLANATION'' ''No explanation provided.'';
          best_reference0 = dict_get result_dict ''BEST_REFERENCE'' ''none'';
          best_reference = (if str_lower best_reference0 = ''none'' then None
                            else Some best_reference0);
          best_text = (case best_reference of
                         None \<Rightarrow> None
                       | Some r \<Rightarrow>
                           if r = [] then None
                           else map_option c_text (find (\<lambda>c. c_reference c = r) candidates))
      in \<lparr>v_is_quotation = is_q, v_match_type = mt, v_confidence = conf, v_explanation = expl,
          best_match_reference = best_reference, best_match_text = best_text\<rparr>)"

text \<open>
  \<^verbatim>\<open>verify_quotation\<close> never raises: the API call and the parsing stand in one
  \<^verbatim>\<open>try\<close>, whose handler returns the verdict \<^verbatim>\<open>UNCERTAIN\<close> with confidence 0.
\<close>

definition verify_quotation ::
  "world \<Rightarrow> ClaudeClient \<Rightarrow> string \<Rightarrow> Candidate list \<Rightarrow> VerificationResult" where
  "verify_quotation w client text candidates =
     (if candidates = []
      then \<lparr>v_is_quotation = False, v_match_type = NON_BIBLICAL, v_confidence = 90,
            v_explanation = ''No candidate matches found in vector search.'',
            best_match_reference = None, best_match_text = None\<rparr>
      else (case messages_create w client text (take 5 candidates) of
              Inr response_text \<Rightarrow> parse_verification_response response_text candidates
            | Inl e \<Rightarrow>
                \<lparr>v_is_quotation = False, v_match_type = UNCERTAIN, v_confidence = 0,
                 v_explanation = ''Error during verification: '' @ exn_str e,
                 best_match_reference = None, best_match_text = None\<rparr>))"

section \<open>\<^verbatim>\<open>QuotationDetector\<close>\<close>

text \<open>
  The detector object: its configuration and the two lazily initialised collaborators
  (\<^verbatim>\<open>_qdrant_manager\<close>, \<^verbatim>\<open>_claude_client\<close>). A method that may initialise one returns the
  detector with it. The field \<^verbatim>\<open>db_path\<close> is read by \<^verbatim>\<open>get_verse\<close> only and is left out,
  and so is logging.
\<close>

record QuotationDetector =
  use_llm :: bool
  min_similarity :: real
  top_k :: int
  qdrant_manager_slot :: "QdrantManager option"
  claude_client_slot :: "ClaudeClient option"

definition QuotationDetector_init :: "bool \<Rightarrow> real \<Rightarrow> int \<Rightarrow> QuotationDetector" where
  "QuotationDetector_init ul ms k =
     \<lparr>use_llm = ul, min_similarity = ms, top_k = k,
      qdrant_manager_slot = None, claude_client_slot = None\<rparr>"

definition qdrant_manager ::
  "world \<Rightarrow> QuotationDetector \<Rightarrow> (QdrantManager \<times> QuotationDetector) raising" where
  "qdrant_manager w d =
     (case qdrant_manager_slot d of
        Some m \<Rightarrow> Inr (m, d)
      | None \<Rightarrow>
          (case QdrantManager_new w of
             Inl e \<Rightarrow> Inl e
           | Inr m \<Rightarrow> Inr (m, d\<lparr>qdrant_manager_slot := Some m\<rparr>)))"

definition claude_client ::
  "world \<Rightarrow> QuotationDetector \<Rightarrow> (ClaudeClient option \<times> QuotationDetector) raising" where
  "claude_client w d =
     (if claude_client_slot d = None \<and> use_llm d
      then (case ClaudeClient_init w of
              Inl e \<Rightarrow> Inl e
            | Inr c \<Rightarrow> Inr (Some c, d\<lparr>claude_client_slot := Some c\<rparr>))
      else Inr (claude_client_slot d, d))"

text \<open>\<^verbatim>\<open>_vector_search\<close>: any exception of the manager or of the search gives no candidates.\<close>

definition vector_search ::
  "world \<Rightarrow> QuotationDetector \<Rightarrow> string \<Rightarrow> Candidate list \<times> QuotationDetector" where
  "vector_search w d text =
     (case qdrant_manager w d of
        Inl e \<Rightarrow> ([], d)
      | Inr (m, d') \<Rightarrow>
          (case QdrantManager_search w m text (top_k d') (min_similarity d') of
             Inl e \<Rightarrow> ([], d')
           | Inr results \<Rightarrow> (results, d')))"

definition to_source :: "Candidate \<Rightarrow> DetectionSource" where
  "to_source c =
     \<lparr>reference = c_reference c, book = c_book c, chapter_num = c_chapter c,
      verse = c_verse c, greek_text = c_text c, greek_original = c_greek_original c,
      similarity_score = c_score c,
      source_edition = (case c_source c of None \<Rightarrow> [] | Some s \<Rightarrow> s)\<rparr>"

text \<open>\<^verbatim>\<open>_heuristic_classify\<close>\<close>

definition heuristic_classify ::
  "string \<Rightarrow> Candidate list \<Rightarrow> DetectionSource list \<Rightarrow> DetectionResult" where
  "heuristic_classify text candidates srcs =
     (case candidates of
        [] \<Rightarrow>
          \<lparr>input_text = text, is_quotation = False, confidence = 90,
           match_type = ''non_biblical'', sources = [], best_match = None,
           explanation = ''No candidates found.'', processing_time_ms = 0\<rparr>
      | c # cs \<Rightarrow>
          (let top_score = c_score c;
               bm = (case srcs of [] \<Rightarrow> None | s # ss \<Rightarrow> Some s);
               (mt, conf, is_q) =
                 (if float_0_95 \<le> top_score then (''exact'', 95, True)
                  else if float_0_85 \<le> top_score then (''close_paraphrase'', 85, True)
                  else if float_0_75 \<le> top_score then (''loose_paraphrase'', 70, True)
                  else if float_0_65 \<le> top_score then (''allusion'', 55, True)
                  else (''non_biblical'', 60, False));
               expl = ''Heuristic classification based on similarity score (''
                      @ format_3f top_score @ ''). Top match: ''
                      @ (case bm of None \<Rightarrow> ''none'' | Some s \<Rightarrow> reference s) @ ''.''
           in \<lparr>input_text = text, is_quotation = is_q, confidence = conf, match_type = mt,
               sources = take 3 srcs, best_match = bm, explanation = expl,
               processing_time_ms = 0\<rparr>))"

text \<open>
  \<^verbatim>\<open>_llm_verify\<close>. The property \<^verbatim>\<open>claude_client\<close> is read inside the \<^verbatim>\<open>try\<close>, so an
  exception of the constructor, and the AttributeError of calling a method of \<^verbatim>\<open>None\<close>,
  both end in the heuristic classification.
\<close>

definition llm_verify ::
  "world \<Rightarrow> QuotationDetector \<Rightarrow> string \<Rightarrow> Candidate list \<Rightarrow> DetectionSource list
     \<Rightarrow> DetectionResult \<times> QuotationDetector" where
  "llm_verify w d text candidates srcs =
     (case claude_client w d of
        Inl e \<Rightarrow> (heuristic_classify text candidates srcs, d)
      | Inr (None, d') \<Rightarrow> (heuristic_classify text candidates srcs, d')
      | Inr (Some client, d') \<Rightarrow>
          (let verification = verify_quotation w client text candidates;
               found = (case best_match_reference verification of
                          None \<Rightarrow> None
                        | Some r \<Rightarrow> if r = [] then None
                                    else find (\<lambda>s. reference s = r) srcs);
               bm = (if found = None \<and> v_is_quotation verification \<and> srcs \<noteq> []
                     then Some (hd srcs) else found)
           in (\<lparr>input_text = text, is_quotation = v_is_quotation verification,
                confidence = v_confidence verification,
                match_type = MatchType_value (v_match_type verification),
                sources = take 3 srcs, best_match = bm,
                explanation = v_explanation verification, processing_time_ms = 0\<rparr>, d')))"

text \<open>
  \<^verbatim>\<open>detect\<close>. The argument \<open>elapsed_ms\<close> is the value of
  \<^verbatim>\<open>int((time.time() - start_time) * 1000)\<close> at the return that is taken.
\<close>

definition detect ::
  "world \<Rightarrow> QuotationDetector \<Rightarrow> string \<Rightarrow> int \<Rightarrow> bool \<Rightarrow> int
     \<Rightarrow> DetectionResult \<times> QuotationDetector" where
  "detect w d text min_confidence include_all_candidates elapsed_ms =
     (let (candidates, d1) = vector_search w d text
      in if candidates = []
         then (\<lparr>input_text = text, is_quotation = False, confidence = 90,
                 match_type = ''non_biblical'', sources = [], best_match = None,
                 explanation = ''No similar biblical texts found in vector search.'',
                 processing_time_ms = elapsed_ms\<rparr>, d1)
         else (let srcs = map to_source candidates;
                   (result, d2) = (if use_llm d1 then llm_verify w d1 text candidates srcs
                                   else (heuristic_classify text candidates srcs, d1));
                   result1 = (if confidence result < min_confidence
                              then result\<lparr>is_quotation := False\<rparr> else result);
                   result2 = result1\<lparr>sources := (if include_all_candidates then srcs
                                                   else take 3 srcs)\<rparr>
               in (result2\<lparr>processing_time_ms := elapsed_ms\<rparr>, d2)))"

text \<open>
  \<^verbatim>\<open>detect_batch\<close>: the loop appends one result per text; \<open>elapsed i\<close> is the time that
  the call for the text at index \<open>i\<close> measures.
\<close>

fun detect_batch_loop ::
  "world \<Rightarrow> int \<Rightarrow> (nat \<Rightarrow> int) \<Rightarrow> string list \<Rightarrow> DetectionResult list \<Rightarrow> QuotationDetector
     \<Rightarrow> DetectionResult list \<times> QuotationDetector" where
  "detect_batch_loop w min_confidence elapsed [] results d = (results, d)"
| "detect_batch_loop w min_confidence elapsed (text # texts) results d =
     (let (result, d') = detect w d text min_confidence False (elapsed (length results))
      in detect_batch_loop w min_confidence elapsed texts (results @ [result]) d')"

definition detect_batch ::
  "world \<Rightarrow> QuotationDetector \<Rightarrow> string list \<Rightarrow> int \<Rightarrow> (nat \<Rightarrow> int)
     \<Rightarrow> DetectionResult list \<times> QuotationDetector" where
  "detect_batch w d texts min_confidence elapsed =
     detect_batch_loop w min_confidence elapsed texts [] d"

section \<open>The comprehension that the batch is compared with\<close>

text \<open>
  \<^verbatim>\<open>[detect(t, min_confidence) for t in texts]\<close>: one call per text, from left to right,
  on the same detector, with \<^verbatim>\<open>include_all_candidates\<close> at its default.
\<close>

fun detect_each ::
  "world \<Rightarrow> int \<Rightarrow> (nat \<Rightarrow> int) \<Rightarrow> nat \<Rightarrow> string list \<Rightarrow> QuotationDetector
     \<Rightarrow> DetectionResult list \<times> QuotationDetector" where
  "detect_each w min_confidence elapsed i [] d = ([], d)"
| "detect_each w min_confidence elapsed i (text # texts) d =
     (let (result, d') = detect w d text min_confidence False (elapsed i);
          (results, d'') = detect_each w min_confidence elapsed (Suc i) texts d'
      in (result # results, d''))"

section \<open>Conditions on the world\<close>


text \<open>
  The vector index fails for this call: building the manager raises, or the search does.
\<close>

definition retrieval_fails :: "world \<Rightarrow> QuotationDetector \<Rightarrow> string \<Rightarrow> bool" where
  "retrieval_fails w d text =
     (case qdrant_manager w d of
        Inl e \<Rightarrow> True
      | Inr (m, d') \<Rightarrow>
          (case QdrantManager_search w m text (top_k d') (min_similarity d') of
             Inl e \<Rightarrow> True
           | Inr results \<Rightarrow> False))"

section \<open>Sample inputs\<close>

text \<open>
  A world is fixed by what the search returns, by the value of the key and by what the API
  replies. Greek is written in Latin letters here.
\<close>

definition default_manager :: QdrantManager where
  "default_manager =
     \<lparr>collection_name = ''biblical_verses'',
      embedding_model_name = ''intfloat/multilingual-e5-large'',
      qdrant_path = ''data/processed/qdrant_direct''\<rparr>"

definition sample_world ::
  "Candidate list raising \<Rightarrow> string option \<Rightarrow> string raising \<Rightarrow> world" where
  "sample_world hits key reply =
     \<lparr>QdrantManager_new = Inr default_manager,
      QdrantManager_search = (\<lambda>m query limit threshold. hits),
      ANTHROPIC_API_KEY = key,
      messages_create = (\<lambda>client text candidates. reply)\<rparr>"

definition john_1_1 :: "real \<Rightarrow> Candidate" where
  "john_1_1 s =
     \<lparr>c_reference = ''John 1:1'', c_book = ''John'', c_chapter = 1, c_verse = 1,
      c_text = ''en arche en ho logos kai ho logos en pros ton theon'', c_score = s,
      c_source = Some ''SR'', c_greek_original = None\<rparr>"

definition heuristic_detector :: QuotationDetector where
  "heuristic_detector = QuotationDetector_init False float_0_7 10"

definition llm_detector :: QuotationDetector where
  "llm_detector = QuotationDetector_init True float_0_7 10"

definition offline :: "'a raising" where
  "offline = Inl (Exception ''connection refused'')"

section \<open>\<^verbatim>\<open>GreekProcessor.normalize\<close> of \<^verbatim>\<open>scripts/process_greek.py\<close>\<close>














section \<open>The word overlap of the specification\<close>

text \<open>
  \<^verbatim>\<open>str.split()\<close> without arguments: the maximal runs of code points that are not white
  space.
\<close>

fun words_from :: "string \<Rightarrow> string \<Rightarrow> string list" where
  "words_from [] cur = (if cur = [] then [] else [cur])"
| "words_from (c # cs) cur =
     (if is_space c then (if cur = [] then words_from cs [] else cur # words_from cs [])
      else words_from cs (cur @ [c]))"

definition str_words :: "string \<Rightarrow> string list" where
  "str_words s = words_from s []"

text \<open>
  Modelled from the spec: \<^verbatim>\<open>count_shared_words\<close>. The test module
  \<^verbatim>\<open>tests/test_word_overlap.py\<close> imports \<^verbatim>\<open>_count_shared_words\<close> and \<^verbatim>\<open>_normalize_greek\<close>
  from \<^verbatim>\<open>src/search/detector.py\<close>, which defines neither. The specification says:
  normalise both inputs, split each on white space, build from each the set of the tokens
  whose length is at least \<open>min_len\<close>, and return the cardinality of the intersection. The
  normaliser is the parameter \<open>nrm\<close>.
\<close>

definition count_shared_words ::
  "(string \<Rightarrow> string) \<Rightarrow> string \<Rightarrow> string \<Rightarrow> nat \<Rightarrow> nat" where
  "count_shared_words nrm a b min_len =
     card (set (filter (\<lambda>t. min_len \<le> length t) (str_words (nrm a)))
           \<inter> set (filter (\<lambda>t. min_len \<le> length t) (str_words (nrm b))))"

section \<open>Sample replies of the API\<close>

definition reply_unknown_type :: string where
  "reply_unknown_type =
     ''IS_QUOTATION: yes'' @ [CHR 0x0A] @ ''MATCH_TYPE: probable'' @ [CHR 0x0A]
     @ ''CONFIDENCE: 80'' @ [CHR 0x0A] @ ''BEST_REFERENCE: John 1:1'' @ [CHR 0x0A]
     @ ''EXPLANATION: Close to the prologue of John.''"

definition reply_allusion :: string where
  "reply_allusion =
     ''IS_QUOTATION: no'' @ [CHR 0x0A] @ ''MATCH_TYPE: allusion'' @ [CHR 0x0A]
     @ ''CONFIDENCE: 40'' @ [CHR 0x0A] @ ''BEST_REFERENCE: none'' @ [CHR 0x0A]
     @ ''EXPLANATION: Echoes the prologue of John.''"

section \<open>What a search leaves unchanged\<close>

lemma vector_search_keeps:
  "use_llm (snd (vector_search w d text)) = use_llm d"
  "claude_client_slot (snd (vector_search w d text)) = claude_client_slot d"
  "min_similarity (snd (vector_search w d text)) = min_similarity d"
  "top_k (snd (vector_search w d text)) = top_k d"
  by (auto simp: vector_search_def qdrant_manager_def split: sum.split option.split prod.split)


text \<open>A second search on the detector that the first one left finds the same candidates.\<close>

lemma vector_search_again:
  "vector_search w (snd (vector_search w d text)) text =
     (fst (vector_search w d text), snd (vector_search w d text))"
  by (auto simp: vector_search_def qdrant_manager_def split: sum.split option.split prod.split)

lemma heuristic_confidence:
  "confidence (heuristic_classify text candidates srcs) \<in> {55, 60, 70, 85, 90, 95}"
  by (simp add: heuristic_classify_def Let_def split: list.split)



lemma detect_batch_loop_each:
  "detect_batch_loop w mc el texts results d =
     (results @ fst (detect_each w mc el (length results) texts d),
      snd (detect_each w mc el (length results) texts d))"
proof (induction texts arbitrary: results d)
  case Nil
  then show ?case by simp
next
  case (Cons t ts)
  then show ?case by (simp add: Let_def case_prod_unfold)
qed

lemma length_detect_each: "length (fst (detect_each w mc el i texts d)) = length texts"
  by (induction texts arbitrary: i d) (simp_all add: Let_def case_prod_unfold)

lemmas sample_defs = sample_world_def heuristic_detector_def llm_detector_def
  QuotationDetector_init_def john_1_1_def default_manager_def offline_def

lemmas run_defs = detect_def vector_search_def qdrant_manager_def heuristic_classify_def
  to_source_def Let_def float_0_95_def float_0_85_def float_0_75_def float_0_65_def

section \<open>The best match of a classification\<close>

lemma find_in_set: "find P xs = Some x \<Longrightarrow> x \<in> set xs"
  by (induction xs) (auto split: if_splits)

lemma heuristic_best_match:
  "best_match (heuristic_classify text candidates (map to_source candidates)) =
     (case candidates of [] \<Rightarrow> None | c # cs \<Rightarrow> Some (to_source c))"
  by (simp add: heuristic_classify_def Let_def case_prod_unfold split: list.split)

lemma heuristic_is_quotation:
  "is_quotation (heuristic_classify text candidates srcs) \<Longrightarrow> candidates \<noteq> []"
  by (auto simp add: heuristic_classify_def)

lemma heuristic_empty: "match_type (heuristic_classify text [] srcs) = ''non_biblical''"
  by (simp add: heuristic_classify_def)

lemma heuristic_best_match_source:
  "best_match (heuristic_classify text candidates srcs) = Some s \<Longrightarrow> s \<in> set srcs"
  by (auto simp add: heuristic_classify_def Let_def case_prod_unfold split: list.splits)

text \<open>\<^verbatim>\<open>_llm_verify\<close> returns the heuristic result or the result built from a verdict.\<close>

lemma llm_verify_cases:
  "(fst (llm_verify w d text candidates srcs) = heuristic_classify text candidates srcs)
   \<or> (\<exists>client d'. claude_client w d = Inr (Some client, d') \<and>
        fst (llm_verify w d text candidates srcs) =
          (let verification = verify_quotation w client text candidates;
               found = (case best_match_reference verification of
                          None \<Rightarrow> None
                        | Some r \<Rightarrow> if r = [] then None
                                    else find (\<lambda>s. reference s = r) srcs);
               bm = (if found = None \<and> v_is_quotation verification \<and> srcs \<noteq> []
                     then Some (hd srcs) else found)
           in \<lparr>input_text = text, is_quotation = v_is_quotation verification,
                confidence = v_confidence verification,
                match_type = MatchType_value (v_match_type verification),
                sources = take 3 srcs, best_match = bm,
                explanation = v_explanation verification, processing_time_ms = 0\<rparr>))"
  by (auto simp add: llm_verify_def Let_def split: sum.split prod.split option.split)

lemma verify_quotation_empty: "\<not> v_is_quotation (verify_quotation w client text [])"
  by (simp add: verify_quotation_def)

lemma llm_best_match_present:
  assumes "is_quotation (fst (llm_verify w d text candidates (map to_source candidates)))"
  shows "best_match (fst (llm_verify w d text candidates (map to_source candidates))) \<noteq> None"
  using llm_verify_cases[of w d "text" candidates "map to_source candidates"]
proof (elim disjE exE conjE)
  assume h: "fst (llm_verify w d text candidates (map to_source candidates))
               = heuristic_classify text candidates (map to_source candidates)"
  with assms have "candidates \<noteq> []"
    using heuristic_is_quotation by metis
  then show ?thesis
    using h heuristic_best_match[of "text" candidates] by (cases candidates) simp_all
next
  fix client d'
  assume e: "fst (llm_verify w d text candidates (map to_source candidates)) =
          (let verification = verify_quotation w client text candidates;
               found = (case best_match_reference verification of
                          None \<Rightarrow> None
                        | Some r \<Rightarrow> if r = [] then None
                                    else find (\<lambda>s. reference s = r) (map to_source candidates));
               bm = (if found = None \<and> v_is_quotation verification
                        \<and> (map to_source candidates) \<noteq> []
                     then Some (hd (map to_source candidates)) else found)
           in \<lparr>input_text = text, is_quotation = v_is_quotation verification,
                confidence = v_confidence verification,
                match_type = MatchType_value (v_match_type verification),
                sources = take 3 (map to_source candidates), best_match = bm,
                explanation = v_explanation verification, processing_time_ms = 0\<rparr>)"
  with assms have q: "v_is_quotation (verify_quotation w client text candidates)"
    by (simp add: Let_def)
  then have "candidates \<noteq> []"
    using verify_quotation_empty by metis
  with q e show ?thesis
    by (auto simp add: Let_def)
qed

lemma llm_best_match_source:
  assumes "best_match (fst (llm_verify w d text candidates srcs)) = Some s"
  shows "s \<in> set srcs"
  using llm_verify_cases[of w d "text" candidates srcs]
proof (elim disjE exE conjE)
  assume "fst (llm_verify w d text candidates srcs) = heuristic_classify text candidates srcs"
  then show ?thesis
    using assms heuristic_best_match_source by metis
next
  fix client d'
  assume e: "fst (llm_verify w d text candidates srcs) =
          (let verification = verify_quotation w client text candidates;
               found = (case best_match_reference verification of
                          None \<Rightarrow> None
                        | Some r \<Rightarrow> if r = [] then None
                                    else find (\<lambda>s. reference s = r) srcs);
               bm = (if found = None \<and> v_is_quotation verification \<and> srcs \<noteq> []
                     then Some (hd srcs) else found)
           in \<lparr>input_text = text, is_quotation = v_is_quotation verification,
                confidence = v_confidence verification,
                match_type = MatchType_value (v_match_type verification),
                sources = take 3 srcs, best_match = bm,
                explanation = v_explanation verification, processing_time_ms = 0\<rparr>)"
  with assms show ?thesis
    by (auto simp add: Let_def hd_in_set split: if_splits option.splits dest: find_in_set)
qed

section \<open>What the normaliser keeps\<close>





section \<open>The sample overlap\<close>

lemma sample_overlap:
  "count_shared_words (\<lambda>x. x) ''en arche en ho logos pros ton theon''
     ''en arche en ho logos kai ho logos en pros ton theon'' 3 = 5"
  by code_simp

section \<open>The confidence floor\<close>



section \<open>Heuristic mode\<close>

text \<open>
  Claim C7. In heuristic mode (\<open>use_llm = False\<close>), with the same world, text and options,
  two calls of \<^verbatim>\<open>detect\<close> return results that are equal in every field except
  \<open>processing_time_ms\<close>, whatever times the two calls measure: both when the second call
  starts from the same detector and when it starts from the detector that the first call
  left (with its manager initialised).
\<close>

theorem detect_heuristic_deterministic:
  assumes "\<not> use_llm d"
  shows "fst (detect w d text min_confidence include_all ms2)
           = (fst (detect w d text min_confidence include_all ms1))\<lparr>processing_time_ms := ms2\<rparr>
       \<and> fst (detect w (snd (detect w d text min_confidence include_all ms1)) text
                 min_confidence include_all ms2)
           = (fst (detect w d text min_confidence include_all ms1))\<lparr>processing_time_ms := ms2\<rparr>"
proof -
  obtain candidates d1 where vs: "vector_search w d text = (candidates, d1)"
    by (cases "vector_search w d text")
  have u: "\<not> use_llm d1"
    using vector_search_keeps(1)[of w d "text"] vs assms by simp
  have again: "vector_search w d1 text = (candidates, d1)"
    using vector_search_again[of w d "text"] vs by simp
  show ?thesis
  proof (cases "candidates = []")
    case True
    then show ?thesis by (simp add: detect_def vs again)
  next
    case False
    then show ?thesis by (simp add: detect_def vs again u Let_def)
  qed
qed

theorem detect_heuristic_deterministic_witness:
  "\<not> use_llm heuristic_detector
   \<and> fst (detect (sample_world (Inr [john_1_1 (31 / 32)]) None offline)
            (snd (detect (sample_world (Inr [john_1_1 (31 / 32)]) None offline)
                    heuristic_detector ''en arche en ho logos'' 50 True 12))
            ''en arche en ho logos'' 50 True 340)
       = (fst (detect (sample_world (Inr [john_1_1 (31 / 32)]) None offline)
                 heuristic_detector ''en arche en ho logos'' 50 True 12))
           \<lparr>processing_time_ms := 340\<rparr>"
proof -
  have h: "\<not> use_llm heuristic_detector"
    by (simp add: heuristic_detector_def QuotationDetector_init_def)
  show ?thesis
    using h detect_heuristic_deterministic [OF h,
        of "sample_world (Inr [john_1_1 (31 / 32)]) None offline" "''en arche en ho logos''"
           50 True 340 12]
    by simp
qed

text \<open>
  Claim C8. In heuristic mode (\<open>use_llm = False\<close>) the confidence of every result of
  \<^verbatim>\<open>detect\<close> is one of 55, 60, 70, 85, 90 and 95, whatever the text and the scores of the
  candidates; so it is never below 55.
\<close>

theorem detect_heuristic_confidence:
  "\<not> use_llm d \<Longrightarrow>
   confidence (fst (detect w d text min_confidence include_all elapsed_ms))
     \<in> {55, 60, 70, 85, 90, 95}"
  using heuristic_confidence vector_search_keeps(1)[of w d "text"]
  by (auto simp add: detect_def Let_def split: prod.split)

theorem detect_heuristic_confidence_witness:
  "\<not> use_llm heuristic_detector
   \<and> confidence (fst (detect (sample_world (Inr [john_1_1 (7 / 8)]) None offline)
        heuristic_detector ''en arche en ho logos'' 50 False 12)) \<in> {55, 60, 70, 85, 90, 95}"
proof -
  have h: "\<not> use_llm heuristic_detector"
    by (simp add: heuristic_detector_def QuotationDetector_init_def)
  show ?thesis
    using h detect_heuristic_confidence [OF h,
        of "sample_world (Inr [john_1_1 (7 / 8)]) None offline" "''en arche en ho logos''" 50 False 12]
    by simp
qed

section \<open>A missing API key\<close>



section \<open>Batches\<close>

text \<open>
  Claim C10. For every list of texts and every \<open>min_confidence\<close>, \<^verbatim>\<open>detect_batch\<close> returns
  the list \<^verbatim>\<open>[detect(t, min_confidence) for t in texts]\<close>: one result per text, in the
  order of the texts, each computed with \<open>include_all_candidates = False\<close>; and both
  leave the detector in the same state.
\<close>

theorem detect_batch_is_comprehension:
  "detect_batch w d texts min_confidence elapsed = detect_each w min_confidence elapsed 0 texts d
   \<and> length (fst (detect_batch w d texts min_confidence elapsed)) = length texts"
  by (simp add: detect_batch_def detect_batch_loop_each length_detect_each)

section \<open>The heuristic table\<close>

text \<open>
  Claim C1 says that the heuristic classifier follows the table of the specification:
  \<open>exact\<close> from 0.95 with an overlap of 5, \<open>close_paraphrase\<close> from 0.90 with 3,
  \<open>loose_paraphrase\<close> from 0.80 with 3, \<open>allusion\<close> from 0.70 with 2, otherwise
  \<open>non_biblical\<close>. The code has other score ranges. Take a text that shares five words of
  three letters or more with the top verse (both are lower-case ASCII, which no step of the
  normaliser of the specification changes), and a top score of 0.875: the score is in the
  range of the row \<open>loose_paraphrase\<close> of the claim, below the range of \<open>close_paraphrase\<close>,
  and the overlap meets the requirement of the row, so the claim gives \<open>loose_paraphrase\<close>
  with confidence 70. The classifier returns \<open>close_paraphrase\<close> with confidence 85.
\<close>

theorem heuristic_table_counterexample:
  "0.80 \<le> c_score (john_1_1 (7 / 8)) \<and> c_score (john_1_1 (7 / 8)) < 0.90
   \<and> 3 \<le> count_shared_words (\<lambda>x. x) ''en arche en ho logos pros ton theon''
           (c_text (john_1_1 (7 / 8))) 3
   \<and> match_type (heuristic_classify ''en arche en ho logos pros ton theon''
         [john_1_1 (7 / 8)] [to_source (john_1_1 (7 / 8))]) = ''close_paraphrase''
   \<and> confidence (heuristic_classify ''en arche en ho logos pros ton theon''
         [john_1_1 (7 / 8)] [to_source (john_1_1 (7 / 8))]) = 85"
proof -
  have a: "0.80 \<le> c_score (john_1_1 (7 / 8)) \<and> c_score (john_1_1 (7 / 8)) < 0.90"
    by (simp add: john_1_1_def)
  have b: "3 \<le> count_shared_words (\<lambda>x. x) ''en arche en ho logos pros ton theon''
           (c_text (john_1_1 (7 / 8))) 3"
    by (simp add: john_1_1_def sample_overlap)
  have c: "match_type (heuristic_classify ''en arche en ho logos pros ton theon''
         [john_1_1 (7 / 8)] [to_source (john_1_1 (7 / 8))]) = ''close_paraphrase''"
    by (simp add: run_defs john_1_1_def)
  have d: "confidence (heuristic_classify ''en arche en ho logos pros ton theon''
         [john_1_1 (7 / 8)] [to_source (john_1_1 (7 / 8))]) = 85"
    by (simp add: run_defs john_1_1_def)
  show ?thesis using a b c d by simp
qed

text \<open>
  Claim C1, amended. With \<open>s\<close> the score of the top candidate and \<open>n\<close> the overlap of the
  text with the text of the top candidate (\<open>min_len = 3\<close>), the classifier returns \<open>exact\<close>
  with confidence 95 when \<open>s \<ge> 0.95\<close> and \<open>n \<ge> 5\<close>, \<open>close_paraphrase\<close> with 85 when
  \<open>0.85 \<le> s < 0.95\<close> and \<open>n \<ge> 3\<close>, \<open>loose_paraphrase\<close> with 70 when \<open>0.75 \<le> s < 0.85\<close> and
  \<open>n \<ge> 3\<close>, \<open>allusion\<close> with 55 when \<open>0.65 \<le> s < 0.75\<close> and \<open>n \<ge> 2\<close>, and \<open>non_biblical\<close>
  with 60 when \<open>s < 0.65\<close>; the scores are compared as Python floats. What it returns when
  the score is in the range of a row and the overlap is below the requirement of the row is
  left open here: the classifier does not compute the overlap.
\<close>

theorem heuristic_classify_table:
  "let s = c_score c;
       n = count_shared_words nrm text (c_text c) 3;
       r = heuristic_classify text (c # cs) srcs
   in (float_0_95 \<le> s \<and> 5 \<le> n \<longrightarrow>
         match_type r = ''exact'' \<and> confidence r = 95 \<and> is_quotation r)
    \<and> (float_0_85 \<le> s \<and> s < float_0_95 \<and> 3 \<le> n \<longrightarrow>
         match_type r = ''close_paraphrase'' \<and> confidence r = 85 \<and> is_quotation r)
    \<and> (float_0_75 \<le> s \<and> s < float_0_85 \<and> 3 \<le> n \<longrightarrow>
         match_type r = ''loose_paraphrase'' \<and> confidence r = 70 \<and> is_quotation r)
    \<and> (float_0_65 \<le> s \<and> s < float_0_75 \<and> 2 \<le> n \<longrightarrow>
         match_type r = ''allusion'' \<and> confidence r = 55 \<and> is_quotation r)
    \<and> (s < float_0_65 \<longrightarrow>
         match_type r = ''non_biblical'' \<and> confidence r = 60 \<and> \<not> is_quotation r)"
  by (auto simp add: heuristic_classify_def Let_def float_0_95_def float_0_85_def
      float_0_75_def float_0_65_def)

text \<open>One input for each row, all with an overlap of five words.\<close>

theorem heuristic_classify_table_witness:
  "count_shared_words (\<lambda>x. x) ''en arche en ho logos pros ton theon''
     ''en arche en ho logos kai ho logos en pros ton theon'' 3 = 5
   \<and> float_0_95 \<le> 31 / 32
   \<and> match_type (heuristic_classify ''en arche en ho logos pros ton theon''
         [john_1_1 (31 / 32)] []) = ''exact''
   \<and> float_0_85 \<le> 7 / 8 \<and> 7 / 8 < float_0_95
   \<and> match_type (heuristic_classify ''en arche en ho logos pros ton theon''
         [john_1_1 (7 / 8)] []) = ''close_paraphrase''
   \<and> float_0_75 \<le> 13 / 16 \<and> 13 / 16 < float_0_85
   \<and> match_type (heuristic_classify ''en arche en ho logos pros ton theon''
         [john_1_1 (13 / 16)] []) = ''loose_paraphrase''
   \<and> float_0_65 \<le> 11 / 16 \<and> 11 / 16 < float_0_75
   \<and> match_type (heuristic_classify ''en arche en ho logos pros ton theon''
         [john_1_1 (11 / 16)] []) = ''allusion''
   \<and> 1 / 2 < float_0_65
   \<and> match_type (heuristic_classify ''en arche en ho logos pros ton theon''
         [john_1_1 (1 / 2)] []) = ''non_biblical''"
  using sample_overlap
    heuristic_classify_table [of "john_1_1 (31 / 32)" "\<lambda>x. x"
      "''en arche en ho logos pros ton theon''" "[]" "[]"]
    heuristic_classify_table [of "john_1_1 (7 / 8)" "\<lambda>x. x"
      "''en arche en ho logos pros ton theon''" "[]" "[]"]
    heuristic_classify_table [of "john_1_1 (13 / 16)" "\<lambda>x. x"
      "''en arche en ho logos pros ton theon''" "[]" "[]"]
    heuristic_classify_table [of "john_1_1 (11 / 16)" "\<lambda>x. x"
      "''en arche en ho logos pros ton theon''" "[]" "[]"]
    heuristic_classify_table [of "john_1_1 (1 / 2)" "\<lambda>x. x"
      "''en arche en ho logos pros ton theon''" "[]" "[]"]
  by (simp add: Let_def john_1_1_def float_0_95_def float_0_85_def float_0_75_def
      float_0_65_def)

section \<open>A failing vector index\<close>

text \<open>
  Claim C2 says that \<^verbatim>\<open>detect\<close> surfaces an error when the vector index fails, never a
  normal result. With an index whose search raises, \<^verbatim>\<open>detect\<close> returns the result
  \<open>non_biblical\<close> with confidence 90, the very result it returns when a working index finds
  nothing.
\<close>

theorem detect_index_down_counterexample:
  "fst (detect (sample_world offline None offline) heuristic_detector
          ''en arche en ho logos'' 50 False 7)
     = fst (detect (sample_world (Inr []) None offline) heuristic_detector
          ''en arche en ho logos'' 50 False 7)
   \<and> match_type (fst (detect (sample_world offline None offline) heuristic_detector
         ''en arche en ho logos'' 50 False 7)) = ''non_biblical''
   \<and> confidence (fst (detect (sample_world offline None offline) heuristic_detector
         ''en arche en ho logos'' 50 False 7)) = 90"
  by (simp add: run_defs sample_defs)

text \<open>
  Claim C2, amended. When the vector index fails (building the manager or the search
  raises), \<^verbatim>\<open>_vector_search\<close> catches the exception and \<^verbatim>\<open>detect\<close> returns a normal
  result: \<open>is_quotation = False\<close>, confidence 90, \<open>non_biblical\<close>, no sources, no best match,
  and the explanation of an empty search. No error reaches the caller, and the result
  never holds a partial candidate list.
\<close>

theorem detect_retrieval_failure:
  assumes "retrieval_fails w d text"
  shows "fst (detect w d text min_confidence include_all elapsed_ms) =
     \<lparr>input_text = text, is_quotation = False, confidence = 90,
      match_type = ''non_biblical'', sources = [], best_match = None,
      explanation = ''No similar biblical texts found in vector search.'',
      processing_time_ms = elapsed_ms\<rparr>"
  using assms
  by (auto simp: retrieval_fails_def detect_def vector_search_def split: sum.splits prod.splits)

theorem detect_retrieval_failure_witness:
  "retrieval_fails (sample_world offline (Some ''sk-test'') offline) llm_detector
     ''en arche en ho logos''
   \<and> fst (detect (sample_world offline (Some ''sk-test'') offline) llm_detector
            ''en arche en ho logos'' 50 True 7) =
     \<lparr>input_text = ''en arche en ho logos'', is_quotation = False, confidence = 90,
      match_type = ''non_biblical'', sources = [], best_match = None,
      explanation = ''No similar biblical texts found in vector search.'',
      processing_time_ms = 7\<rparr>"
proof -
  have h: "retrieval_fails (sample_world offline (Some ''sk-test'') offline) llm_detector
     ''en arche en ho logos''"
    by (simp add: retrieval_fails_def qdrant_manager_def sample_defs)
  show ?thesis using h detect_retrieval_failure [OF h, of 50 True 7] by simp
qed

section \<open>The verdict \<open>uncertain\<close>\<close>

text \<open>
  Claim C3 says that the match type of every result of \<^verbatim>\<open>detect\<close> is one of \<open>exact\<close>,
  \<open>close_paraphrase\<close>, \<open>loose_paraphrase\<close>, \<open>allusion\<close> and \<open>non_biblical\<close>, the verdict
  \<open>uncertain\<close> being turned into \<open>non_biblical\<close> with confidence 0. The code copies the
  verdict: in LLM mode with a key, when the API call raises, the result has the match type
  \<open>uncertain\<close> (confidence 0); when the reply names an unknown match type, the result has
  the match type \<open>uncertain\<close> with the confidence and the flag of the reply.
\<close>

theorem detect_llm_uncertain:
  "match_type (fst (detect (sample_world (Inr [john_1_1 (7 / 8)]) (Some ''sk-test'') offline)
      llm_detector ''en arche en ho logos'' 50 False 7)) = ''uncertain''
   \<and> confidence (fst (detect (sample_world (Inr [john_1_1 (7 / 8)]) (Some ''sk-test'') offline)
      llm_detector ''en arche en ho logos'' 50 False 7)) = 0
   \<and> match_type (fst (detect (sample_world (Inr [john_1_1 (7 / 8)]) (Some ''sk-test'')
        (Inr reply_unknown_type)) llm_detector ''en arche en ho logos'' 50 False 7))
       = ''uncertain''
   \<and> confidence (fst (detect (sample_world (Inr [john_1_1 (7 / 8)]) (Some ''sk-test'')
        (Inr reply_unknown_type)) llm_detector ''en arche en ho logos'' 50 False 7)) = 80
   \<and> is_quotation (fst (detect (sample_world (Inr [john_1_1 (7 / 8)]) (Some ''sk-test'')
        (Inr reply_unknown_type)) llm_detector ''en arche en ho logos'' 50 False 7))"
  by code_simp

section \<open>The best match\<close>

text \<open>
  Claim C4 says that \<open>best_match\<close> is absent if and only if the match type is
  \<open>non_biblical\<close>. In the heuristic path, a top score of 0.5 gives \<open>non_biblical\<close> with the
  top candidate as best match. In the LLM path, a reply that says \<open>allusion\<close>, not a
  quotation, and names no reference gives \<open>allusion\<close> without a best match.
\<close>

theorem best_match_counterexample:
  "match_type (heuristic_classify ''en arche en ho logos'' [john_1_1 (1 / 2)]
      [to_source (john_1_1 (1 / 2))]) = ''non_biblical''
   \<and> best_match (heuristic_classify ''en arche en ho logos'' [john_1_1 (1 / 2)]
      [to_source (john_1_1 (1 / 2))]) = Some (to_source (john_1_1 (1 / 2)))
   \<and> match_type (fst (llm_verify
        (sample_world (Inr [john_1_1 (7 / 8)]) (Some ''sk-test'') (Inr reply_allusion))
        llm_detector ''en arche en ho logos'' [john_1_1 (7 / 8)]
        [to_source (john_1_1 (7 / 8))])) = ''allusion''
   \<and> best_match (fst (llm_verify
        (sample_world (Inr [john_1_1 (7 / 8)]) (Some ''sk-test'') (Inr reply_allusion))
        llm_detector ''en arche en ho logos'' [john_1_1 (7 / 8)]
        [to_source (john_1_1 (7 / 8))])) = None"
  by code_simp

text \<open>
  Claim C4, amended. In the heuristic path \<open>best_match\<close> is absent exactly when there is
  no candidate: every branch over a non-empty list, \<open>non_biblical\<close> included, returns the top
  candidate, so an absent best match implies \<open>non_biblical\<close> but not the converse. In the
  LLM path (a verdict of the verifier or the fallback), the best match is one of the
  sources, and it is present whenever the result says \<open>is_quotation\<close>; it does not follow
  the match type.
\<close>

theorem classify_best_match:
  "best_match (heuristic_classify text candidates (map to_source candidates))
     = (case candidates of [] \<Rightarrow> None | c # cs \<Rightarrow> Some (to_source c))
   \<and> (best_match (heuristic_classify text candidates (map to_source candidates)) = None
        \<longrightarrow> match_type (heuristic_classify text candidates (map to_source candidates))
              = ''non_biblical'')
   \<and> (is_quotation (fst (llm_verify w d text candidates (map to_source candidates)))
        \<longrightarrow> best_match (fst (llm_verify w d text candidates (map to_source candidates)))
              \<noteq> None)
   \<and> (\<forall>s. best_match (fst (llm_verify w d text candidates (map to_source candidates)))
              = Some s
        \<longrightarrow> s \<in> set (map to_source candidates))"
proof (intro conjI allI impI)
  show "best_match (heuristic_classify text candidates (map to_source candidates))
     = (case candidates of [] \<Rightarrow> None | c # cs \<Rightarrow> Some (to_source c))"
    by (rule heuristic_best_match)
next
  assume "best_match (heuristic_classify text candidates (map to_source candidates)) = None"
  then have "candidates = []"
    by (simp add: heuristic_best_match split: list.splits)
  then show "match_type (heuristic_classify text candidates (map to_source candidates))
      = ''non_biblical''"
    by (simp add: heuristic_empty)
next
  assume "is_quotation (fst (llm_verify w d text candidates (map to_source candidates)))"
  then show "best_match (fst (llm_verify w d text candidates (map to_source candidates)))
      \<noteq> None"
    by (rule llm_best_match_present)
next
  fix s
  assume "best_match (fst (llm_verify w d text candidates (map to_source candidates)))
      = Some s"
  then show "s \<in> set (map to_source candidates)"
    by (rule llm_best_match_source)
qed

text \<open>
  No candidate: no best match, \<open>non_biblical\<close>. One candidate and a reply that says
  quotation: the candidate is the best match (here under the verdict \<open>uncertain\<close>).
\<close>

theorem classify_best_match_witness:
  "best_match (heuristic_classify ''en arche en ho logos'' [] (map to_source [])) = None
   \<and> match_type (heuristic_classify ''en arche en ho logos'' [] (map to_source []))
       = ''non_biblical''
   \<and> is_quotation (fst (llm_verify
        (sample_world (Inr [john_1_1 (7 / 8)]) (Some ''sk-test'') (Inr reply_unknown_type))
        llm_detector ''en arche en ho logos'' [john_1_1 (7 / 8)]
        (map to_source [john_1_1 (7 / 8)])))
   \<and> best_match (fst (llm_verify
        (sample_world (Inr [john_1_1 (7 / 8)]) (Some ''sk-test'') (Inr reply_unknown_type))
        llm_detector ''en arche en ho logos'' [john_1_1 (7 / 8)]
        (map to_source [john_1_1 (7 / 8)]))) = Some (to_source (john_1_1 (7 / 8)))
   \<and> to_source (john_1_1 (7 / 8)) \<in> set (map to_source [john_1_1 (7 / 8)])"
proof -
  have n: "best_match (heuristic_classify ''en arche en ho logos'' [] (map to_source []))
      = None"
    by (simp add: heuristic_classify_def)
  have q: "is_quotation (fst (llm_verify
        (sample_world (Inr [john_1_1 (7 / 8)]) (Some ''sk-test'') (Inr reply_unknown_type))
        llm_detector ''en arche en ho logos'' [john_1_1 (7 / 8)]
        (map to_source [john_1_1 (7 / 8)])))"
    by code_simp
  have b: "best_match (fst (llm_verify
        (sample_world (Inr [john_1_1 (7 / 8)]) (Some ''sk-test'') (Inr reply_unknown_type))
        llm_detector ''en arche en ho logos'' [john_1_1 (7 / 8)]
        (map to_source [john_1_1 (7 / 8)]))) = Some (to_source (john_1_1 (7 / 8)))"
    by code_simp
  show ?thesis
    using n q b
      classify_best_match [of "''en arche en ho logos''" "[]"]
      classify_best_match [of "''en arche en ho logos''" "[john_1_1 (7 / 8)]"
        "sample_world (Inr [john_1_1 (7 / 8)]) (Some ''sk-test'') (Inr reply_unknown_type)"
        llm_detector]
    by simp
qed

section \<open>The final sigma\<close>




end
